theory Spec2Isabelle
  imports Complex_Main "HOL-Library.Multiset"
begin

section \<open>Strings\<close>

text \<open>
  Python strings are modelled as \<open>string\<close>, a character standing for a code point
  below 256. \<open>str.strip\<close> and \<open>str.split(',')\<close> are written out: the white space
  that \<open>strip\<close> removes in this range is TAB, LF, VT, FF, CR, FS, GS, RS, US, the
  blank, NEL (0x85) and the no-break space (0xA0).

  \<open>str.lower\<close> is a library function that the model does not fix: the one operation
  that calls it, \<open>edit_category\<close>, takes it as a parameter, and what is proved of that
  operation holds for every such function. \<open>ascii_lower\<close>, which maps \<open>A\<close>..\<open>Z\<close>
  to \<open>a\<close>..\<open>z\<close> and leaves every other character alone, is \<open>str.lower\<close> on
  strings of ASCII characters and stands for it in the examples, whose categories are
  such strings.
\<close>

definition is_space :: "char \<Rightarrow> bool" where
  "is_space c \<longleftrightarrow>
     c \<in> set [CHR 0x09, CHR 0x0A, CHR 0x0B, CHR 0x0C, CHR 0x0D,
                CHR 0x1C, CHR 0x1D, CHR 0x1E, CHR 0x1F, CHR '' '', CHR 0x85, CHR 0xA0]"

definition strip :: "string \<Rightarrow> string" where
  "strip s = rev (dropWhile is_space (rev (dropWhile is_space s)))"

fun split_on :: "char \<Rightarrow> string \<Rightarrow> string list" where
  "split_on sep [] = [[]]"
| "split_on sep (x # xs) =
     (if x = sep then [] # split_on sep xs
      else (case split_on sep xs of
              [] \<Rightarrow> [[x]]
            | p # ps \<Rightarrow> (x # p) # ps))"

definition ascii_lower_char :: "char \<Rightarrow> char" where
  "ascii_lower_char c =
     (case map_of (zip ''ABCDEFGHIJKLMNOPQRSTUVWXYZ'' ''abcdefghijklmnopqrstuvwxyz'') c of
        Some l \<Rightarrow> l
      | None \<Rightarrow> c)"

definition ascii_lower :: "string \<Rightarrow> string" where
  "ascii_lower s = map ascii_lower_char s"

text \<open>
  \<open>BankStatementApp.extract_store_name\<close>: the second comma-separated field when there
  is one, the whole description otherwise, stripped in both cases.
\<close>

definition extract_store_name :: "string \<Rightarrow> string" where
  "extract_store_name description =
     (let parts = split_on CHR '','' description
      in if length parts \<ge> 2 then strip (parts ! 1) else strip description)"

section \<open>Dates\<close>

text \<open>
  Every \<open>datetime\<close> of the program comes from a date-only format, so its time of day is
  midnight and only year, month and day are kept. \<open>strftime_ymd\<close> is
  \<open>strftime("%Y-%m-%d")\<close> and \<open>strftime_ym\<close> is \<open>strftime("%Y-%m")\<close>. The year
  is written with four digits, zero-padded, which is the format that the Python
  documentation gives for \<open>%Y\<close> (0001 to 9999) and the only one that
  \<open>strptime\<close> reads back. A C library that leaves the years below 1000 unpadded is
  not modelled; for the years from 1000 on, the two agree. \<open>strptime_ymd\<close> is
  \<open>datetime.strptime(s, "%Y-%m-%d")\<close> on the ten-character form that
  \<open>strftime_ymd\<close> produces, which is the only form the program passes to it;
  \<open>None\<close> stands for the \<open>ValueError\<close>.
\<close>

record datetime =
  year :: nat
  month :: nat
  day :: nat

definition digit_char :: "nat \<Rightarrow> char" where
  "digit_char n = ''0123456789'' ! (n mod 10)"

definition zfill2 :: "nat \<Rightarrow> string" where
  "zfill2 n = [digit_char (n div 10), digit_char n]"

definition zfill4 :: "nat \<Rightarrow> string" where
  "zfill4 n = [digit_char (n div 1000), digit_char (n div 100), digit_char (n div 10), digit_char n]"

definition strftime_ym :: "datetime \<Rightarrow> string" where
  "strftime_ym d = zfill4 (year d) @ ''-'' @ zfill2 (month d)"

definition strftime_ymd :: "datetime \<Rightarrow> string" where
  "strftime_ymd d = zfill4 (year d) @ ''-'' @ zfill2 (month d) @ ''-'' @ zfill2 (day d)"

definition digit_val :: "char \<Rightarrow> nat option" where
  "digit_val c =
     (let n = of_char c :: nat in if 48 \<le> n \<and> n \<le> 57 then Some (n - 48) else None)"

fun nat_of_digits_acc :: "nat \<Rightarrow> string \<Rightarrow> nat option" where
  "nat_of_digits_acc acc [] = Some acc"
| "nat_of_digits_acc acc (c # cs) =
     (case digit_val c of
        None \<Rightarrow> None
      | Some v \<Rightarrow> nat_of_digits_acc (10 * acc + v) cs)"

definition nat_of_digits :: "string \<Rightarrow> nat option" where
  "nat_of_digits s = (if s = [] then None else nat_of_digits_acc 0 s)"

definition leap :: "nat \<Rightarrow> bool" where
  "leap y \<longleftrightarrow> y mod 4 = 0 \<and> (y mod 100 \<noteq> 0 \<or> y mod 400 = 0)"

definition days_in_month :: "nat \<Rightarrow> nat \<Rightarrow> nat" where
  "days_in_month y m =
     (if m = 2 then (if leap y then 29 else 28)
      else if m = 4 \<or> m = 6 \<or> m = 9 \<or> m = 11 then 30 else 31)"

definition valid_datetime :: "datetime \<Rightarrow> bool" where
  "valid_datetime d \<longleftrightarrow>
     1 \<le> year d \<and> year d \<le> 9999 \<and> 1 \<le> month d \<and> month d \<le> 12 \<and>
     1 \<le> day d \<and> day d \<le> days_in_month (year d) (month d)"

definition strptime_ymd :: "string \<Rightarrow> datetime option" where
  "strptime_ymd s =
     (if length s = 10 \<and> s ! 4 = CHR ''-'' \<and> s ! 7 = CHR ''-'' then
        (case nat_of_digits (take 4 s) of
           None \<Rightarrow> None
         | Some y \<Rightarrow>
            (case nat_of_digits (take 2 (drop 5 s)) of
               None \<Rightarrow> None
             | Some m \<Rightarrow>
                (case nat_of_digits (drop 8 s) of
                   None \<Rightarrow> None
                 | Some dd \<Rightarrow>
                    (let d = \<lparr>year = y, month = m, day = dd\<rparr>
                     in if valid_datetime d then Some d else None))))
      else None)"

section \<open>Application state\<close>

text \<open>
  A transaction is the tuple \<open>(date, store, amount, category)\<close> of the source. Amounts are
  Python floats; the program only compares them with zero, takes their absolute value and
  adds them, so the amount type is left open (\<open>'a\<close>) and no law of arithmetic is
  used on it. The soundness of the summary needs one fact about the order, that no amount
  is both below and above zero; the examples take \<open>real\<close> amounts.

  The state gathers the globals \<open>transactions\<close> and \<open>ignored_transactions\<close>, the
  category dictionary \<open>self.categories\<close>, and the ignore list. The ignore list is written
  to \<open>ignore.csv\<close> after every change and read back before every use, so one field
  \<open>ignore_list\<close> stands for the in-memory list and the file. Message boxes and saves are
  recorded in \<open>events\<close>, in the order in which they happen.
\<close>

type_synonym 'a transaction = "datetime \<times> string \<times> 'a \<times> string"

datatype event =
    DateError string "string option"
  | FileError string
  | ErrorBox string
  | InfoBox string
  | SaveCategories "string \<Rightarrow> string option"
  | SaveIgnoreList "(string \<times> string) list"

record 'a state =
  transactions :: "'a transaction list"
  ignored_transactions :: "'a transaction list"
  categories :: "string \<Rightarrow> string option"
  ignore_list :: "(string \<times> string) list"
  events :: "event list"

definition initial_state ::
  "(string \<Rightarrow> string option) \<Rightarrow> (string \<times> string) list \<Rightarrow> 'a state" where
  "initial_state cats il =
     \<lparr>transactions = [], ignored_transactions = [], categories = cats,
      ignore_list = il, events = []\<rparr>"

definition tx_key :: "'a transaction \<Rightarrow> string \<times> string" where
  "tx_key t = (case t of (d, s, amt, cat) \<Rightarrow> (strftime_ymd d, s))"

section \<open>Summary tables\<close>

text \<open>
  \<open>BankStatementApp.generate_summary\<close>. The four tables are \<open>defaultdict\<close>s: a key
  appears when it is first added to, starting from \<open>0.0\<close> (or from an empty inner
  table), and \<open>dd_get\<close> reads a table with that default.
\<close>

record 'a summary =
  summary_spending :: "string \<Rightarrow> (string \<Rightarrow> 'a option) option"
  summary_income :: "string \<Rightarrow> (string \<Rightarrow> 'a option) option"
  monthly_totals_spending :: "string \<Rightarrow> 'a option"
  monthly_totals_income :: "string \<Rightarrow> 'a option"

definition dd_get :: "('k \<Rightarrow> 'a option) \<Rightarrow> 'k \<Rightarrow> 'a::zero" where
  "dd_get tbl k = (case tbl k of None \<Rightarrow> 0 | Some v \<Rightarrow> v)"

definition dd_inner :: "('k \<Rightarrow> ('c \<Rightarrow> 'a option) option) \<Rightarrow> 'k \<Rightarrow> ('c \<Rightarrow> 'a option)" where
  "dd_inner tbl k = (case tbl k of None \<Rightarrow> Map.empty | Some inner \<Rightarrow> inner)"

definition dd_add :: "('k \<Rightarrow> 'a option) \<Rightarrow> 'k \<Rightarrow> 'a \<Rightarrow> ('k \<Rightarrow> 'a::{zero,plus} option)" where
  "dd_add tbl k x = tbl(k \<mapsto> dd_get tbl k + x)"

definition dd_add2 ::
  "('k \<Rightarrow> ('c \<Rightarrow> 'a option) option) \<Rightarrow> 'k \<Rightarrow> 'c \<Rightarrow> 'a \<Rightarrow>
   ('k \<Rightarrow> ('c \<Rightarrow> 'a::{zero,plus} option) option)" where
  "dd_add2 tbl k c x = tbl(k \<mapsto> dd_add (dd_inner tbl k) c x)"

definition empty_summary :: "'a summary" where
  "empty_summary =
     \<lparr>summary_spending = Map.empty, summary_income = Map.empty,
      monthly_totals_spending = Map.empty, monthly_totals_income = Map.empty\<rparr>"

fun summary_step :: "'a summary \<Rightarrow> 'a transaction \<Rightarrow> 'a::{zero,plus,abs,ord} summary" where
  "summary_step sm (d, s, amt, cat) =
     (let m = strftime_ym d
      in if amt < 0 then
           sm\<lparr>summary_spending := dd_add2 (summary_spending sm) m cat \<bar>amt\<bar>,
              monthly_totals_spending := dd_add (monthly_totals_spending sm) m \<bar>amt\<bar>\<rparr>
         else if 0 < amt then
           sm\<lparr>summary_income := dd_add2 (summary_income sm) m cat amt,
              monthly_totals_income := dd_add (monthly_totals_income sm) m amt\<rparr>
         else sm)"

definition generate_summary :: "'a transaction list \<Rightarrow> 'a::{zero,plus,abs,ord} summary" where
  "generate_summary ts = foldl summary_step empty_summary ts"

text \<open>
  The sums of the specification: \<open>py_sum\<close> adds left to right from zero, as Python's
  \<open>sum\<close> over a generator does; the four selections follow the specification's
  comprehensions.
\<close>

definition py_sum :: "'a list \<Rightarrow> 'a::{zero,plus}" where
  "py_sum xs = foldl (+) 0 xs"

definition spec_income :: "'a transaction list \<Rightarrow> string \<Rightarrow> 'a::{zero,plus,ord}" where
  "spec_income ts m =
     py_sum (map (\<lambda>(d, s, amt, cat). amt)
               (filter (\<lambda>(d, s, amt, cat). strftime_ym d = m \<and> 0 < amt) ts))"

definition spec_spending :: "'a transaction list \<Rightarrow> string \<Rightarrow> 'a::{zero,plus,abs,ord}" where
  "spec_spending ts m =
     py_sum (map (\<lambda>(d, s, amt, cat). \<bar>amt\<bar>)
               (filter (\<lambda>(d, s, amt, cat). strftime_ym d = m \<and> amt < 0) ts))"

definition spec_income_cat ::
  "'a transaction list \<Rightarrow> string \<Rightarrow> string \<Rightarrow> 'a::{zero,plus,ord}" where
  "spec_income_cat ts m c =
     py_sum (map (\<lambda>(d, s, amt, cat). amt)
               (filter (\<lambda>(d, s, amt, cat). strftime_ym d = m \<and> cat = c \<and> 0 < amt) ts))"

definition spec_spending_cat ::
  "'a transaction list \<Rightarrow> string \<Rightarrow> string \<Rightarrow> 'a::{zero,plus,abs,ord}" where
  "spec_spending_cat ts m c =
     py_sum (map (\<lambda>(d, s, amt, cat). \<bar>amt\<bar>)
               (filter (\<lambda>(d, s, amt, cat). strftime_ym d = m \<and> cat = c \<and> amt < 0) ts))"

section \<open>Import\<close>

text \<open>
  \<open>BankStatementApp.load_csv\<close>. A selected file is a base name with either nothing
  readable behind it (\<open>open\<close> raises) or the rows that \<open>csv.DictReader\<close> yields, each
  with the columns \<open>Date\<close>, \<open>Description\<close> and \<open>Value\<close>; a field is \<open>None\<close> when
  the row is too short to have it. The two parsers of external text,
  \<open>datetime.strptime(_, "%d %b %Y")\<close> and \<open>float\<close>, are parameters: \<open>None\<close> is
  the exception they raise, which they also raise on a field that is \<open>None\<close>.

  \<open>load_row\<close> is the body of the inner loop. Its result \<open>None\<close> is an exception that
  leaves the loop (\<open>row["Description"].split\<close> on a missing field), caught by the
  handler of the file, which reports the file and goes on to the next one.
\<close>

record csv_row =
  Date :: "string option"
  Description :: "string option"
  Value :: "string option"

datatype csv_source = Unreadable | Readable "csv_row list"

type_synonym csv_file = "string \<times> csv_source"

definition parse_field :: "(string \<Rightarrow> 'b option) \<Rightarrow> string option \<Rightarrow> 'b option" where
  "parse_field p f = (case f of None \<Rightarrow> None | Some s \<Rightarrow> p s)"

definition load_row ::
  "(string \<Rightarrow> datetime option) \<Rightarrow> (string \<Rightarrow> 'a option) \<Rightarrow> string \<Rightarrow> csv_row \<Rightarrow>
   'a state \<Rightarrow> 'a state option" where
  "load_row strptime_dby float fname row st =
     (case parse_field strptime_dby (Date row) of
        None \<Rightarrow> Some (st\<lparr>events := events st @ [DateError fname (Date row)]\<rparr>)
      | Some d \<Rightarrow>
         (case Description row of
            None \<Rightarrow> None
          | Some description \<Rightarrow>
             (let s = extract_store_name description
              in case parse_field float (Value row) of
                   None \<Rightarrow> Some st
                 | Some amt \<Rightarrow>
                    (let cat = (case categories st s of None \<Rightarrow> ''None'' | Some c \<Rightarrow> c);
                         st1 = (if categories st s = None
                                then st\<lparr>categories := (categories st)(s \<mapsto> cat),
                                        events := events st @
                                          [SaveCategories ((categories st)(s \<mapsto> cat))]\<rparr>
                                else st)
                     in if (strftime_ymd d, s) \<in> set (ignore_list st1)
                        then Some (st1\<lparr>ignored_transactions :=
                                         ignored_transactions st1 @ [(d, s, amt, cat)]\<rparr>)
                        else Some (st1\<lparr>transactions :=
                                         transactions st1 @ [(d, s, amt, cat)]\<rparr>)))))"

fun load_rows ::
  "(string \<Rightarrow> datetime option) \<Rightarrow> (string \<Rightarrow> 'a option) \<Rightarrow> string \<Rightarrow> csv_row list \<Rightarrow>
   'a state \<Rightarrow> 'a state" where
  "load_rows strptime_dby float fname [] st = st"
| "load_rows strptime_dby float fname (row # rows) st =
     (case load_row strptime_dby float fname row st of
        None \<Rightarrow> st\<lparr>events := events st @ [FileError fname]\<rparr>
      | Some st' \<Rightarrow> load_rows strptime_dby float fname rows st')"

fun load_file ::
  "(string \<Rightarrow> datetime option) \<Rightarrow> (string \<Rightarrow> 'a option) \<Rightarrow> csv_file \<Rightarrow>
   'a state \<Rightarrow> 'a state" where
  "load_file strptime_dby float (fname, Unreadable) st =
     st\<lparr>events := events st @ [FileError fname]\<rparr>"
| "load_file strptime_dby float (fname, Readable rows) st =
     load_rows strptime_dby float fname rows st"

fun load_files ::
  "(string \<Rightarrow> datetime option) \<Rightarrow> (string \<Rightarrow> 'a option) \<Rightarrow> csv_file list \<Rightarrow>
   'a state \<Rightarrow> 'a state" where
  "load_files strptime_dby float [] st = st"
| "load_files strptime_dby float (f # fs) st =
     load_files strptime_dby float fs (load_file strptime_dby float f st)"

text \<open>
  \<open>answer\<close> is what the user replies to "Would you like to replace the current
  data?"; the question is only asked when \<open>transactions\<close> is not empty. The
  recomputation of the summary and the refresh of the tabs that follow a load are
  functions of \<open>transactions\<close> and \<open>categories\<close> and leave the state alone.
\<close>

definition load_csv ::
  "(string \<Rightarrow> datetime option) \<Rightarrow> (string \<Rightarrow> 'a option) \<Rightarrow> csv_file list \<Rightarrow> bool \<Rightarrow>
   'a state \<Rightarrow> 'a state" where
  "load_csv strptime_dby float file_paths answer st =
     (if file_paths = [] then st
      else
        (let replace_data = (transactions st \<noteq> [] \<and> answer);
             st1 = (if replace_data then st\<lparr>transactions := []\<rparr> else st);
             st2 = load_files strptime_dby float file_paths st1
         in if transactions st2 \<noteq> [] then st2
            else st2\<lparr>events := events st2 @ [InfoBox ''No Transactions'']\<rparr>))"

section \<open>The ignore-list dialog\<close>

text \<open>
  \<open>IgnoreListDialog.add_selectedd\<close> and \<open>remove_selectedd\<close>, the handlers bound to the
  two buttons of the dialog. The argument is the focused row of the tree, \<open>None\<close> when
  no row has the focus, reduced to its date string and store: the income and outgoing
  columns of the row are parsed into a local value that is never used. A row is matched
  by \<open>transaction[:2] == (date_obj, store)\<close>, the first match is taken out with
  \<open>list.remove\<close> and the loop stops.
\<close>

definition matches :: "datetime \<Rightarrow> string \<Rightarrow> 'a transaction \<Rightarrow> bool" where
  "matches date_obj s t = (case t of (d, s', amt, cat) \<Rightarrow> (d, s') = (date_obj, s))"

definition add_selectedd :: "(string \<times> string) option \<Rightarrow> 'a state \<Rightarrow> 'a state" where
  "add_selectedd selected st =
     (case selected of
        None \<Rightarrow> st
      | Some (date_str, s) \<Rightarrow>
         (case strptime_ymd date_str of
            None \<Rightarrow> st
          | Some date_obj \<Rightarrow>
             if (date_str, s) \<notin> set (ignore_list st) then
               (let il = ignore_list st @ [(date_str, s)];
                    st1 = st\<lparr>ignore_list := il, events := events st @ [SaveIgnoreList il]\<rparr>
                in case find (matches date_obj s) (transactions st1) of
                     None \<Rightarrow> st1
                   | Some t \<Rightarrow>
                      st1\<lparr>transactions := remove1 t (transactions st1),
                          ignored_transactions := ignored_transactions st1 @ [t]\<rparr>)
             else st))"

definition remove_selectedd :: "(string \<times> string) option \<Rightarrow> 'a state \<Rightarrow> 'a state" where
  "remove_selectedd selected st =
     (case selected of
        None \<Rightarrow> st
      | Some (date_str, s) \<Rightarrow>
         (let st1 = (if (date_str, s) \<in> set (ignore_list st)
                     then st\<lparr>ignore_list := remove1 (date_str, s) (ignore_list st)\<rparr>
                     else st)
          in case strptime_ymd date_str of
               None \<Rightarrow> st1
             | Some date_obj \<Rightarrow>
                (let st2 = (case find (matches date_obj s) (ignored_transactions st1) of
                              None \<Rightarrow> st1
                            | Some t \<Rightarrow>
                               st1\<lparr>ignored_transactions := remove1 t (ignored_transactions st1),
                                   transactions := transactions st1 @ [t]\<rparr>)
                 in st2\<lparr>events := events st2 @ [SaveIgnoreList (ignore_list st2)]\<rparr>)))"

section \<open>Categories\<close>

text \<open>
  \<open>BankStatementApp.add_category\<close>: the store and the category are the contents of the
  two entry fields.
\<close>

definition add_category :: "string \<Rightarrow> string \<Rightarrow> 'a state \<Rightarrow> 'a state" where
  "add_category s category st =
     (if category = [] \<or> s = [] then
        st\<lparr>events := events st @ [ErrorBox ''Please select a category to add.'']\<rparr>
      else
        st\<lparr>categories := (categories st)(s \<mapsto> category),
           events := events st @ [SaveCategories ((categories st)(s \<mapsto> category))]\<rparr>)"

text \<open>
  \<open>BankStatementApp.correct_transaction\<close>. \<open>item_id\<close> is the focused item of the
  correction tree (empty when there is none), \<open>values\<close> its four columns, \<open>new_cat\<close>
  the answer to the category prompt (\<open>None\<close> when cancelled) and \<open>update_all\<close> the
  answer to "apply to all". Item identifiers are written by the program as \<open>str(i)\<close>,
  so \<open>int(item_id)\<close> is read as a string of digits; an index past the end of the list
  raises and leaves the state as it was.
\<close>

definition set_category :: "string \<Rightarrow> 'a transaction \<Rightarrow> 'a transaction" where
  "set_category new_cat t = (case t of (d, s, amt, cat) \<Rightarrow> (d, s, amt, new_cat))"

definition correct_transaction ::
  "string \<Rightarrow> (string \<times> string \<times> string \<times> string) option \<Rightarrow> string option \<Rightarrow> bool \<Rightarrow>
   'a state \<Rightarrow> 'a state" where
  "correct_transaction item_id values new_cat update_all st =
     (if item_id = [] then st
      else
        (case values of
           None \<Rightarrow> st
         | Some (v0, v1, v2, current_cat) \<Rightarrow>
            (case new_cat of
               None \<Rightarrow> st
             | Some nc \<Rightarrow>
                if nc \<noteq> [] \<and> nc \<noteq> current_cat then
                  (if update_all then
                     st\<lparr>transactions :=
                          map (\<lambda>(d, s, amt, cat). if s = v1 then (d, s, amt, nc) else (d, s, amt, cat))
                            (transactions st),
                        categories := (categories st)(v1 \<mapsto> nc)\<rparr>
                   else
                     (case nat_of_digits item_id of
                        None \<Rightarrow> st
                      | Some index \<Rightarrow>
                         if index < length (transactions st) then
                           st\<lparr>transactions :=
                                (transactions st)[index := set_category nc (transactions st ! index)]\<rparr>
                         else st))
                else st)))"

text \<open>
  \<open>BankStatementApp.edit_category\<close>. \<open>lower\<close> is \<open>str.lower\<close>, by which the
  categories are compared. \<open>values\<close> are the columns of the selected row of
  the category tree, \<open>None\<close> when no row is selected and empty when the row has none;
  the first column is the old category. The loop over \<open>self.categories.items()\<close> assigns
  to existing keys only, so it is a map over the values of the dictionary. Only
  \<open>transactions\<close> is rewritten: no operation of the program changes the category of a
  transaction in \<open>ignored_transactions\<close>. The call of the missing method
  \<open>populate_correction_periods\<close> at the end raises after both updates are done and
  changes nothing.
\<close>

definition edit_category ::
  "(string \<Rightarrow> string) \<Rightarrow> string list option \<Rightarrow> string option \<Rightarrow> 'a state \<Rightarrow> 'a state" where
  "edit_category lower values new_cat st =
     (case values of
        None \<Rightarrow> st\<lparr>events := events st @ [InfoBox ''Please select a category to edit.'']\<rparr>
      | Some [] \<Rightarrow> st
      | Some (old_cat # _) \<Rightarrow>
         (case new_cat of
            None \<Rightarrow> st
          | Some nc \<Rightarrow>
             if nc \<noteq> [] \<and> nc \<noteq> old_cat then
               st\<lparr>transactions :=
                    map (\<lambda>(d, s, amt, cat).
                           if lower cat = lower old_cat then (d, s, amt, nc) else (d, s, amt, cat))
                      (transactions st),
                  categories :=
                    (\<lambda>s. case categories st s of
                            None \<Rightarrow> None
                          | Some cat \<Rightarrow> if lower cat = lower old_cat then Some nc else Some cat),
                  events := events st @ [InfoBox ''Updated'']\<rparr>
             else st))"

section \<open>Reading transactions\<close>

text \<open>The four components of a transaction tuple, by position.\<close>

definition tx_date :: "'a transaction \<Rightarrow> datetime" where
  "tx_date t = fst t"

definition tx_store :: "'a transaction \<Rightarrow> string" where
  "tx_store t = fst (snd t)"

definition tx_amount :: "'a transaction \<Rightarrow> 'a" where
  "tx_amount t = fst (snd (snd t))"

definition tx_category :: "'a transaction \<Rightarrow> string" where
  "tx_category t = snd (snd (snd t))"

section \<open>Reachable states\<close>

text \<open>
  The states that the operations produce from the start of the program, under three
  provisos: the ignore file read at the start holds no pair twice, the date parser
  returns calendar dates only, and after each load no two transactions held in the two
  sequences have the same pair of date string and store (\<open>keys_apart\<close>). The
  parsers are those of the program and stay the same along a run. \<open>routed\<close> says
  that the held transactions have calendar dates, that the ignore list is free of
  repetitions, and that a held transaction is ignored exactly when its pair is in the
  ignore list.
\<close>

definition keys_apart :: "'a state \<Rightarrow> bool" where
  "keys_apart st \<longleftrightarrow> distinct (map tx_key (transactions st @ ignored_transactions st))"


inductive reachable ::
  "(string \<Rightarrow> datetime option) \<Rightarrow> (string \<Rightarrow> 'a option) \<Rightarrow> 'a state \<Rightarrow> bool"
  for strptime_dby :: "string \<Rightarrow> datetime option" and float :: "string \<Rightarrow> 'a option" where
  start:
    "distinct il \<Longrightarrow> \<forall>s d. strptime_dby s = Some d \<longrightarrow> valid_datetime d \<Longrightarrow>
     reachable strptime_dby float (initial_state cats il)"
| load:
    "reachable strptime_dby float st \<Longrightarrow>
     keys_apart (load_csv strptime_dby float file_paths answer st) \<Longrightarrow>
     reachable strptime_dby float (load_csv strptime_dby float file_paths answer st)"
| to_ignored:
    "reachable strptime_dby float st \<Longrightarrow> reachable strptime_dby float (add_selectedd selected st)"
| to_active:
    "reachable strptime_dby float st \<Longrightarrow>
     reachable strptime_dby float (remove_selectedd selected st)"
| correct:
    "reachable strptime_dby float st \<Longrightarrow>
     reachable strptime_dby float (correct_transaction item_id values new_cat update_all st)"
| rename:
    "reachable strptime_dby float st \<Longrightarrow>
     reachable strptime_dby float (edit_category lower values new_cat st)"
| assign:
    "reachable strptime_dby float st \<Longrightarrow> reachable strptime_dby float (add_category s category st)"

section \<open>Example data\<close>

text \<open>
  The two rows of the specification's scenario, two more Tesco rows of the same day, a
  row with a bad date, one with a bad value and one that holds a date and nothing else,
  and parsers that read exactly the fields of these rows. Amounts are \<open>real\<close>
  here.
\<close>

definition example_strptime :: "string \<Rightarrow> datetime option" where
  "example_strptime s =
     (if s = ''15 Jan 2024'' then Some \<lparr>year = 2024, month = 1, day = 15\<rparr>
      else if s = ''20 Jan 2024'' then Some \<lparr>year = 2024, month = 1, day = 20\<rparr>
      else None)"

definition example_float :: "string \<Rightarrow> real option" where
  "example_float s =
     (if s = ''-23.50'' then Some (- 23.5)
      else if s = ''2000.00'' then Some 2000
      else if s = ''-5.00'' then Some (- 5)
      else if s = ''-7.00'' then Some (- 7)
      else None)"

definition tesco_row :: csv_row where
  "tesco_row =
     \<lparr>Date = Some ''15 Jan 2024'', Description = Some ''SHOP A, Tesco'', Value = Some ''-23.50''\<rparr>"

definition employer_row :: csv_row where
  "employer_row =
     \<lparr>Date = Some ''20 Jan 2024'', Description = Some ''SHOP B, Employer'',
      Value = Some ''2000.00''\<rparr>"

definition bad_date_row :: csv_row where
  "bad_date_row =
     \<lparr>Date = Some ''31 Foo 2024'', Description = Some ''SHOP A, Tesco'', Value = Some ''-23.50''\<rparr>"

definition bad_value_row :: csv_row where
  "bad_value_row =
     \<lparr>Date = Some ''15 Jan 2024'', Description = Some ''SHOP A, Tesco'', Value = Some ''n/a''\<rparr>"


definition tesco_row_b :: csv_row where
  "tesco_row_b =
     \<lparr>Date = Some ''15 Jan 2024'', Description = Some ''SHOP A, Tesco'', Value = Some ''-5.00''\<rparr>"

definition tesco_row_c :: csv_row where
  "tesco_row_c =
     \<lparr>Date = Some ''15 Jan 2024'', Description = Some ''SHOP A, Tesco'', Value = Some ''-7.00''\<rparr>"

definition tesco_tx :: "real transaction" where
  "tesco_tx = (\<lparr>year = 2024, month = 1, day = 15\<rparr>, ''Tesco'', - 23.5, ''None'')"

definition tesco_tx_b :: "real transaction" where
  "tesco_tx_b = (\<lparr>year = 2024, month = 1, day = 15\<rparr>, ''Tesco'', - 5, ''None'')"

definition tesco_tx_c :: "real transaction" where
  "tesco_tx_c = (\<lparr>year = 2024, month = 1, day = 15\<rparr>, ''Tesco'', - 7, ''None'')"

definition employer_tx :: "real transaction" where
  "employer_tx = (\<lparr>year = 2024, month = 1, day = 20\<rparr>, ''Employer'', 2000, ''None'')"

text \<open>
  The state after the two rows of the scenario are loaded while the pair of the Tesco
  transaction is in the ignore list, so that the Tesco transaction is ignored and the
  Employer transaction is active; and a state with one active and one ignored
  transaction of category Groceries.
\<close>

definition stale_state :: "real state" where
  "stale_state =
     load_csv example_strptime example_float [(''jan.csv'', Readable [tesco_row, employer_row])]
       False (initial_state Map.empty [(''2024-01-15'', ''Tesco'')])"

definition groceries_state :: "real state" where
  "groceries_state =
     \<lparr>transactions = [(\<lparr>year = 2024, month = 1, day = 15\<rparr>, ''Tesco'', - 23.5, ''Groceries'')],
      ignored_transactions =
        [(\<lparr>year = 2024, month = 1, day = 20\<rparr>, ''Asda'', - 5, ''Groceries'')],
      categories = [''Tesco'' \<mapsto> ''Groceries'', ''Asda'' \<mapsto> ''Groceries''],
      ignore_list = [(''2024-01-20'', ''Asda'')], events = []\<rparr>"

text \<open>
  States reached through the operations: the scenario of the specification; three Tesco
  rows of one day loaded and the first one ignored; two Tesco rows of one day loaded
  while their pair is in the ignore list and the first one taken back; and one Tesco row
  loaded while the ignore file holds its pair three times and taken back.
\<close>

definition tesco_key :: "string \<times> string" where
  "tesco_key = (''2024-01-15'', ''Tesco'')"

definition jan_file :: "csv_row list \<Rightarrow> csv_file list" where
  "jan_file rows = [(''jan.csv'', Readable rows)]"

definition triplet_state :: "real state" where
  "triplet_state =
     add_selectedd (Some tesco_key)
       (load_csv example_strptime example_float (jan_file [tesco_row, tesco_row_b, tesco_row_c])
          False (initial_state Map.empty []))"

definition twin_state :: "real state" where
  "twin_state =
     remove_selectedd (Some tesco_key)
       (load_csv example_strptime example_float (jan_file [tesco_row, tesco_row_b])
          False (initial_state Map.empty [tesco_key]))"

definition thrice_state :: "real state" where
  "thrice_state =
     remove_selectedd (Some tesco_key)
       (load_csv example_strptime example_float (jan_file [tesco_row])
          False (initial_state Map.empty [tesco_key, tesco_key, tesco_key]))"

definition scenario_state :: "real state" where
  "scenario_state =
     load_csv example_strptime example_float (jan_file [tesco_row, employer_row])
       False (initial_state Map.empty [])"

section \<open>Aggregate soundness\<close>

lemma dd_get_dd_add:
  "dd_get (dd_add tbl k x) k' = (if k' = k then dd_get tbl k + x else dd_get tbl k')"
  by (simp add: dd_get_def dd_add_def)

lemma dd_inner_dd_add2:
  "dd_inner (dd_add2 tbl k c x) k' =
     (if k' = k then dd_add (dd_inner tbl k) c x else dd_inner tbl k')"
  by (simp add: dd_inner_def dd_add2_def)

lemma foldl_income:
  fixes sm :: "('a::{zero,plus,abs,preorder}) summary"
  shows "dd_get (monthly_totals_income (foldl summary_step sm ts)) m =
   foldl (+) (dd_get (monthly_totals_income sm) m)
     (map (\<lambda>(d, s, amt, cat). amt)
        (filter (\<lambda>(d, s, amt, cat). strftime_ym d = m \<and> 0 < amt) ts))"
proof (induction ts arbitrary: sm)
  case Nil
  show ?case by simp
next
  case (Cons t ts)
  obtain d s amt cat where t: "t = (d, s, amt, cat)" by (cases t)
  have "\<not> (amt < 0 \<and> 0 < amt)"
    using less_asym [of amt 0] by blast
  then show ?case
    unfolding t by (auto simp add: Cons.IH Let_def dd_get_dd_add)
qed

lemma foldl_spending:
  fixes sm :: "('a::{zero,plus,abs,preorder}) summary"
  shows "dd_get (monthly_totals_spending (foldl summary_step sm ts)) m =
   foldl (+) (dd_get (monthly_totals_spending sm) m)
     (map (\<lambda>(d, s, amt, cat). \<bar>amt\<bar>)
        (filter (\<lambda>(d, s, amt, cat). strftime_ym d = m \<and> amt < 0) ts))"
proof (induction ts arbitrary: sm)
  case Nil
  show ?case by simp
next
  case (Cons t ts)
  obtain d s amt cat where t: "t = (d, s, amt, cat)" by (cases t)
  have "\<not> (amt < 0 \<and> 0 < amt)"
    using less_asym [of amt 0] by blast
  then show ?case
    unfolding t by (auto simp add: Cons.IH Let_def dd_get_dd_add)
qed

lemma foldl_income_cat:
  fixes sm :: "('a::{zero,plus,abs,preorder}) summary"
  shows "dd_get (dd_inner (summary_income (foldl summary_step sm ts)) m) c =
   foldl (+) (dd_get (dd_inner (summary_income sm) m) c)
     (map (\<lambda>(d, s, amt, cat). amt)
        (filter (\<lambda>(d, s, amt, cat). strftime_ym d = m \<and> cat = c \<and> 0 < amt) ts))"
proof (induction ts arbitrary: sm)
  case Nil
  show ?case by simp
next
  case (Cons t ts)
  obtain d s amt cat where t: "t = (d, s, amt, cat)" by (cases t)
  have "\<not> (amt < 0 \<and> 0 < amt)"
    using less_asym [of amt 0] by blast
  then show ?case
    unfolding t by (auto simp add: Cons.IH Let_def dd_get_dd_add dd_inner_dd_add2)
qed

lemma foldl_spending_cat:
  fixes sm :: "('a::{zero,plus,abs,preorder}) summary"
  shows "dd_get (dd_inner (summary_spending (foldl summary_step sm ts)) m) c =
   foldl (+) (dd_get (dd_inner (summary_spending sm) m) c)
     (map (\<lambda>(d, s, amt, cat). \<bar>amt\<bar>)
        (filter (\<lambda>(d, s, amt, cat). strftime_ym d = m \<and> cat = c \<and> amt < 0) ts))"
proof (induction ts arbitrary: sm)
  case Nil
  show ?case by simp
next
  case (Cons t ts)
  obtain d s amt cat where t: "t = (d, s, amt, cat)" by (cases t)
  have "\<not> (amt < 0 \<and> 0 < amt)"
    using less_asym [of amt 0] by blast
  then show ?case
    unfolding t by (auto simp add: Cons.IH Let_def dd_get_dd_add dd_inner_dd_add2)
qed

lemma summary_step_zero:
  "summary_step sm (d, s, 0::'a::{zero,plus,abs,preorder}, cat) = sm"
  by simp

lemma foldl_drop_zero:
  "foldl summary_step sm (filter (\<lambda>(d, s, amt, cat). amt \<noteq> (0::'a::{zero,plus,abs,preorder})) ts) =
   foldl summary_step sm ts"
proof (induction ts arbitrary: sm)
  case Nil
  show ?case by simp
next
  case (Cons t ts)
  obtain d s amt cat where t: "t = (d, s, amt, cat)" by (cases t)
  show ?case
  proof (cases "amt = 0")
    case True
    then show ?thesis unfolding t using Cons.IH [of sm] by simp
  next
    case False
    then show ?thesis unfolding t using Cons.IH by simp
  qed
qed

text \<open>
  C1. After \<open>generate_summary\<close> has run over the active transactions, for every month
  \<open>m\<close> and category \<open>c\<close> the monthly income total is the sum of the positive amounts of
  month \<open>m\<close>, the monthly spending total is the sum of the absolute values of the negative
  amounts of month \<open>m\<close>, the two breakdown tables hold the same sums restricted to
  category \<open>c\<close>, and transactions whose amount is exactly zero contribute to none of the
  four tables: leaving them out gives the same four tables.
\<close>

theorem generate_summary_sound:
  fixes ts :: "('a::{zero,plus,abs,preorder}) transaction list"
  shows
    "dd_get (monthly_totals_income (generate_summary ts)) m = spec_income ts m \<and>
     dd_get (monthly_totals_spending (generate_summary ts)) m = spec_spending ts m \<and>
     dd_get (dd_inner (summary_income (generate_summary ts)) m) c = spec_income_cat ts m c \<and>
     dd_get (dd_inner (summary_spending (generate_summary ts)) m) c = spec_spending_cat ts m c \<and>
     generate_summary (filter (\<lambda>(d, s, amt, cat). amt \<noteq> 0) ts) = generate_summary ts"
proof -
  have e1: "dd_get (monthly_totals_income (empty_summary :: 'a summary)) m = 0"
    and e2: "dd_get (monthly_totals_spending (empty_summary :: 'a summary)) m = 0"
    and e3: "dd_get (dd_inner (summary_income (empty_summary :: 'a summary)) m) c = 0"
    and e4: "dd_get (dd_inner (summary_spending (empty_summary :: 'a summary)) m) c = 0"
    by (simp_all add: empty_summary_def dd_get_def dd_inner_def)
  show ?thesis
    unfolding generate_summary_def spec_income_def spec_spending_def spec_income_cat_def
      spec_spending_cat_def py_sum_def
    by (simp only: foldl_income foldl_spending foldl_income_cat foldl_spending_cat
        foldl_drop_zero e1 e2 e3 e4 simp_thms)
qed

section \<open>Evaluating the examples\<close>

lemmas tx_defs = tx_date_def tx_store_def tx_amount_def tx_category_def

lemmas example_defs = example_strptime_def example_float_def tesco_row_def employer_row_def
  tesco_row_b_def tesco_row_c_def tesco_tx_def tesco_tx_b_def tesco_tx_c_def employer_tx_def
  bad_date_row_def bad_value_row_def initial_state_def

lemmas date_defs = strftime_ymd_def strftime_ym_def zfill4_def zfill2_def digit_char_def
  strptime_ymd_def nat_of_digits_def digit_val_def valid_datetime_def days_in_month_def leap_def

lemma extract_store_name_Tesco: "extract_store_name ''SHOP A, Tesco'' = ''Tesco''"
  by (simp add: extract_store_name_def strip_def is_space_def)

lemma extract_store_name_Employer: "extract_store_name ''SHOP B, Employer'' = ''Employer''"
  by (simp add: extract_store_name_def strip_def is_space_def)

section \<open>Assigning a category\<close>

text \<open>
  C10. \<open>add_category\<close> with an empty store name or an empty category leaves the
  category dictionary as it was and saves nothing: the only effect is the error box. With
  both strings non-empty the dictionary afterwards maps the store to the category, every
  other store is as before, and the dictionary is saved.
\<close>

theorem add_category_effect:
  "(category = [] \<or> s = [] \<longrightarrow>
      categories (add_category s category st) = categories st \<and>
      events (add_category s category st) =
        events st @ [ErrorBox ''Please select a category to add.'']) \<and>
   (category \<noteq> [] \<and> s \<noteq> [] \<longrightarrow>
      categories (add_category s category st) s = Some category \<and>
      (\<forall>s'. s' \<noteq> s \<longrightarrow> categories (add_category s category st) s' = categories st s') \<and>
      events (add_category s category st) =
        events st @ [SaveCategories (categories (add_category s category st))])"
  by (simp add: add_category_def)

theorem add_category_effect_witness:
  "categories (add_category ''Tesco'' '''' (initial_state Map.empty [] :: real state)) = Map.empty \<and>
   events (add_category '''' ''Food'' (initial_state Map.empty [] :: real state)) =
     [ErrorBox ''Please select a category to add.''] \<and>
   categories (add_category ''Tesco'' ''Food'' (initial_state Map.empty [] :: real state)) ''Tesco'' =
     Some ''Food'' \<and>
   events (add_category ''Tesco'' ''Food'' (initial_state Map.empty [] :: real state)) =
     [SaveCategories (categories (add_category ''Tesco'' ''Food''
        (initial_state Map.empty [] :: real state)))]"
  using add_category_effect [of "''''" "''Tesco''" "initial_state Map.empty [] :: real state"]
    add_category_effect [of "''Food''" "''''" "initial_state Map.empty [] :: real state"]
    add_category_effect [of "''Food''" "''Tesco''" "initial_state Map.empty [] :: real state"]
  by (simp add: initial_state_def)


section \<open>Correcting the category of a store\<close>

text \<open>
  C9. The update of all transactions of a store compares stores by equality of strings:
  position by position, an active transaction whose store is the target store gets the
  new category, any other one, also one whose store differs in letter case only, keeps its
  category, and date, store and amount of every transaction stay as they were.
\<close>

theorem correct_transaction_apply_to_all:
  assumes "item_id \<noteq> []" and "nc \<noteq> []" and "nc \<noteq> current_cat"
  shows
    "list_all2
       (\<lambda>t t'. tx_date t' = tx_date t \<and> tx_store t' = tx_store t \<and> tx_amount t' = tx_amount t \<and>
                tx_category t' = (if tx_store t = target then nc else tx_category t))
       (transactions st)
       (transactions (correct_transaction item_id (Some (v0, target, v2, current_cat))
          (Some nc) True st))"
  using assms
  by (auto simp add: correct_transaction_def list_all2_map2 tx_defs intro!: list.rel_refl_strong)

theorem correct_transaction_apply_to_all_witness:
  "transactions (correct_transaction ''0'' (Some (''15 Jan 2024'', ''Tesco'', ''-23.50'', ''None''))
      (Some ''Food'') True
      \<lparr>transactions =
         [(\<lparr>year = 2024, month = 1, day = 15\<rparr>, ''Tesco'', - 23.5 :: real, ''None''),
          (\<lparr>year = 2024, month = 1, day = 16\<rparr>, ''tesco'', - 1, ''None''),
          (\<lparr>year = 2024, month = 1, day = 17\<rparr>, ''Tesco'', - 2, ''Shops'')],
       ignored_transactions = [], categories = Map.empty, ignore_list = [], events = []\<rparr>) =
     [(\<lparr>year = 2024, month = 1, day = 15\<rparr>, ''Tesco'', - 23.5, ''Food''),
      (\<lparr>year = 2024, month = 1, day = 16\<rparr>, ''tesco'', - 1, ''None''),
      (\<lparr>year = 2024, month = 1, day = 17\<rparr>, ''Tesco'', - 2, ''Food'')]"
proof -
  have h: "''0'' \<noteq> []" "''Food'' \<noteq> []" "''Food'' \<noteq> ''None''" by simp_all
  show ?thesis
    using correct_transaction_apply_to_all [OF h, where st =
      "\<lparr>transactions =
         [(\<lparr>year = 2024, month = 1, day = 15\<rparr>, ''Tesco'', - 23.5 :: real, ''None''),
          (\<lparr>year = 2024, month = 1, day = 16\<rparr>, ''tesco'', - 1, ''None''),
          (\<lparr>year = 2024, month = 1, day = 17\<rparr>, ''Tesco'', - 2, ''Shops'')],
       ignored_transactions = [], categories = Map.empty, ignore_list = [], events = []\<rparr>"
      and target = "''Tesco''" and ?v0.0 = "''15 Jan 2024''" and ?v2.0 = "''-23.50''"]
    by (simp add: correct_transaction_def)
qed

section \<open>Routing of imported rows\<close>

text \<open>
  C6. A row whose date and value parse yields one transaction, made of the parsed date,
  the extracted store, the parsed amount and the category of the store (\<open>None\<close> for an
  unseen store). It is appended to \<open>ignored_transactions\<close> when the pair of its date
  as YYYY-MM-DD and its store is in the ignore list, and to \<open>transactions\<close> otherwise;
  the other sequence and the ignore list are unchanged.
\<close>

theorem load_row_routes:
  assumes "parse_field strptime_dby (Date row) = Some d"
    and "Description row = Some description"
    and "parse_field float (Value row) = Some amt"
  shows
    "\<exists>st'. load_row strptime_dby float fname row st = Some st' \<and>
       ignore_list st' = ignore_list st \<and>
       (let s = extract_store_name description;
            t = (d, s, amt, case categories st s of None \<Rightarrow> ''None'' | Some c \<Rightarrow> c)
        in if (strftime_ymd d, s) \<in> set (ignore_list st)
           then ignored_transactions st' = ignored_transactions st @ [t] \<and>
                transactions st' = transactions st
           else transactions st' = transactions st @ [t] \<and>
                ignored_transactions st' = ignored_transactions st)"
  using assms by (simp add: load_row_def Let_def)

theorem load_row_routes_witness:
  "(\<exists>st'. load_row example_strptime example_float ''jan.csv'' tesco_row
            (initial_state Map.empty [(''2024-01-15'', ''Tesco'')]) = Some st' \<and>
      ignored_transactions st' = [tesco_tx] \<and> transactions st' = []) \<and>
   (\<exists>st'. load_row example_strptime example_float ''jan.csv'' tesco_row
            (initial_state Map.empty []) = Some st' \<and>
      ignored_transactions st' = [] \<and> transactions st' = [tesco_tx])"
proof -
  have h: "parse_field example_strptime (Date tesco_row) = Some \<lparr>year = 2024, month = 1, day = 15\<rparr>"
    "Description tesco_row = Some ''SHOP A, Tesco''"
    "parse_field example_float (Value tesco_row) = Some (- 23.5)"
    by (simp_all add: parse_field_def example_strptime_def example_float_def tesco_row_def)
  show ?thesis
    using load_row_routes [OF h, of "''jan.csv''" "initial_state Map.empty [(''2024-01-15'', ''Tesco'')]"]
      load_row_routes [OF h, of "''jan.csv''" "initial_state Map.empty []"]
    by (auto simp add: initial_state_def extract_store_name_Tesco tesco_tx_def Let_def
        strftime_ymd_def zfill4_def zfill2_def digit_char_def)
qed

section \<open>Rows and files that fail\<close>




section \<open>Loading in replace mode\<close>

text \<open>
  C3. A load in replace mode clears \<open>transactions\<close> only. After the two rows of the
  scenario are loaded with the Tesco pair in the ignore list, replacing the data by a
  file that holds the Employer row alone leaves the Tesco transaction in
  \<open>ignored_transactions\<close>, although no newly imported file contains it.
\<close>

theorem load_csv_replace_keeps_ignored:
  "transactions stale_state = [employer_tx] \<and>
   ignored_transactions stale_state = [tesco_tx] \<and>
   transactions (load_csv example_strptime example_float
      [(''feb.csv'', Readable [employer_row])] True stale_state) = [employer_tx] \<and>
   ignored_transactions (load_csv example_strptime example_float
      [(''feb.csv'', Readable [employer_row])] True stale_state) = [tesco_tx]"
  by (simp add: load_csv_def load_row_def Let_def parse_field_def stale_state_def example_defs
      extract_store_name_Employer extract_store_name_Tesco date_defs)

section \<open>Renaming a category\<close>

text \<open>
  C4, as the code has it. When the new name is not empty and differs from the old one,
  every store mapped to a category that equals the old one up to letter case is mapped to
  the new one and every other store keeps its mapping; position by position, an active
  transaction whose category equals the old one up to letter case gets the new one and
  any other one is unchanged; the ignored transactions are left as they are; and when the
  new name also differs from the old one up to letter case, no active transaction and no
  store is left with a category that equals the old one up to letter case. When the new
  name is empty or equal to the old one, nothing changes. Equality up to letter case is
  equality after \<open>lower\<close>, whatever function \<open>lower\<close> is.
\<close>

theorem edit_category_renames:
  "(nc \<noteq> [] \<and> nc \<noteq> old_cat \<longrightarrow>
      (\<forall>s c. categories st s = Some c \<longrightarrow>
         categories (edit_category lower (Some (old_cat # rest)) (Some nc) st) s =
           Some (if lower c = lower old_cat then nc else c)) \<and>
      (\<forall>s. categories st s = None \<longrightarrow>
         categories (edit_category lower (Some (old_cat # rest)) (Some nc) st) s = None) \<and>
      list_all2
        (\<lambda>t t'. tx_date t' = tx_date t \<and> tx_store t' = tx_store t \<and> tx_amount t' = tx_amount t \<and>
                 tx_category t' =
                   (if lower (tx_category t) = lower old_cat then nc else tx_category t))
        (transactions st)
        (transactions (edit_category lower (Some (old_cat # rest)) (Some nc) st)) \<and>
      ignored_transactions (edit_category lower (Some (old_cat # rest)) (Some nc) st) =
        ignored_transactions st \<and>
      (lower nc \<noteq> lower old_cat \<longrightarrow>
         (\<forall>t \<in> set (transactions (edit_category lower (Some (old_cat # rest)) (Some nc) st)).
            lower (tx_category t) \<noteq> lower old_cat) \<and>
         (\<forall>s c. categories (edit_category lower (Some (old_cat # rest)) (Some nc) st) s = Some c \<longrightarrow>
            lower c \<noteq> lower old_cat))) \<and>
   (nc = [] \<or> nc = old_cat \<longrightarrow>
      edit_category lower (Some (old_cat # rest)) (Some nc) st = st)"
  by (auto simp add: edit_category_def list_all2_map2 tx_defs
      intro!: list.rel_refl_strong split: option.splits if_splits)

theorem edit_category_renames_witness:
  "transactions (edit_category ascii_lower (Some [''Groceries'']) (Some ''Food'') groceries_state) =
     [(\<lparr>year = 2024, month = 1, day = 15\<rparr>, ''Tesco'', - 23.5, ''Food'')] \<and>
   categories (edit_category ascii_lower (Some [''Groceries'']) (Some ''Food'') groceries_state)
     ''Tesco'' = Some ''Food'' \<and>
   ignored_transactions
     (edit_category ascii_lower (Some [''Groceries'']) (Some ''Food'') groceries_state) =
     ignored_transactions groceries_state \<and>
   edit_category ascii_lower (Some [''Groceries'']) (Some ''Groceries'') groceries_state =
     groceries_state"
  using edit_category_renames [where lower = ascii_lower and nc = "''Food''"
      and old_cat = "''Groceries''" and rest = "[]" and st = groceries_state]
    edit_category_renames [where lower = ascii_lower and nc = "''Groceries''"
      and old_cat = "''Groceries''" and rest = "[]" and st = groceries_state]
  by (simp add: groceries_state_def ascii_lower_def ascii_lower_char_def tx_defs list_all2_Cons1)

text \<open>
  Renaming Groceries to Food leaves the ignored Asda transaction, which is in memory,
  with the category Groceries; renaming Groceries to groceries leaves the active
  transaction and the store with a category that equals Groceries up to letter case;
  and renaming to the empty string leaves the store mapped to Groceries.
\<close>

theorem edit_category_counterexample:
  "ignored_transactions
     (edit_category ascii_lower (Some [''Groceries'']) (Some ''Food'') groceries_state) =
     [(\<lparr>year = 2024, month = 1, day = 20\<rparr>, ''Asda'', - 5, ''Groceries'')] \<and>
   transactions
     (edit_category ascii_lower (Some [''Groceries'']) (Some ''groceries'') groceries_state) =
     [(\<lparr>year = 2024, month = 1, day = 15\<rparr>, ''Tesco'', - 23.5, ''groceries'')] \<and>
   categories
     (edit_category ascii_lower (Some [''Groceries'']) (Some ''groceries'') groceries_state)
     ''Tesco'' = Some ''groceries'' \<and>
   ascii_lower ''groceries'' = ascii_lower ''Groceries'' \<and>
   edit_category ascii_lower (Some [''Groceries'']) (Some '''') groceries_state =
     groceries_state \<and>
   categories groceries_state ''Tesco'' = Some ''Groceries''"
  by (simp add: edit_category_def groceries_state_def ascii_lower_def ascii_lower_char_def)

section \<open>Formatting and parsing dates\<close>

lemma digit_val_nth:
  assumes "k < 10"
  shows "digit_val (''0123456789'' ! k) = Some k"
proof -
  from assms have "k \<in> {0, 1, 2, 3, 4, 5, 6, 7, 8, 9}" by auto
  then show ?thesis by (auto simp add: digit_val_def)
qed

lemma digit_val_digit_char: "digit_val (digit_char n) = Some (n mod 10)"
  unfolding digit_char_def by (rule digit_val_nth) simp

lemma horner4:
  "y = 10 * a + r1 \<Longrightarrow> a = 10 * b + r2 \<Longrightarrow> b = 10 * c + r3 \<Longrightarrow>
   1000 * c + 100 * r3 + 10 * r2 + r1 = (y::nat)"
  by simp

lemma decimal4:
  assumes "(y::nat) \<le> 9999"
  shows "1000 * (y div 1000 mod 10) + 100 * (y div 100 mod 10) + 10 * (y div 10 mod 10) + y mod 10 = y"
proof -
  have e1: "y = 10 * (y div 10) + y mod 10" by simp
  have "y div 100 = y div 10 div 10" using div_mult2_eq [of y 10 10] by simp
  then have e2: "y div 10 = 10 * (y div 100) + y div 10 mod 10" by simp
  have "y div 1000 = y div 100 div 10" using div_mult2_eq [of y 100 10] by simp
  then have e3: "y div 100 = 10 * (y div 1000) + y div 100 mod 10" by simp
  from assms have "y < 10 * 1000" by simp
  then have "y div 1000 < 10" by (rule less_mult_imp_div_less)
  then have e4: "y div 1000 mod 10 = y div 1000" by simp
  show ?thesis unfolding e4 by (rule horner4 [OF e1 e2 e3])
qed

lemma decimal2:
  assumes "(y::nat) \<le> 99"
  shows "10 * (y div 10 mod 10) + y mod 10 = y"
proof -
  from assms have "y < 10 * 10" by simp
  then have "y div 10 < 10" by (rule less_mult_imp_div_less)
  then have "y div 10 mod 10 = y div 10" by simp
  then show ?thesis by simp
qed

lemma nat_of_digits_4:
  assumes "digit_val a = Some va" and "digit_val b = Some vb" and "digit_val c = Some vc"
    and "digit_val e = Some ve"
  shows "nat_of_digits [a, b, c, e] = Some (1000 * va + 100 * vb + 10 * vc + ve)"
  using assms by (simp add: nat_of_digits_def)

lemma nat_of_digits_2:
  assumes "digit_val a = Some va" and "digit_val b = Some vb"
  shows "nat_of_digits [a, b] = Some (10 * va + vb)"
  using assms by (simp add: nat_of_digits_def)

lemma nat_of_digits_zfill4:
  assumes "y \<le> 9999"
  shows "nat_of_digits (zfill4 y) = Some y"
  unfolding zfill4_def
  using nat_of_digits_4 [OF digit_val_digit_char digit_val_digit_char digit_val_digit_char
      digit_val_digit_char, of "y div 1000" "y div 100" "y div 10" y]
  by (simp only: decimal4 [OF assms])

lemma nat_of_digits_zfill2:
  assumes "y \<le> 99"
  shows "nat_of_digits (zfill2 y) = Some y"
  unfolding zfill2_def
  using nat_of_digits_2 [OF digit_val_digit_char digit_val_digit_char, of "y div 10" y]
  by (simp only: decimal2 [OF assms])

lemma days_in_month_le: "days_in_month y m \<le> 31"
  by (simp add: days_in_month_def)

lemma strptime_strftime:
  assumes "valid_datetime d"
  shows "strptime_ymd (strftime_ymd d) = Some d"
proof -
  from assms have y: "year d \<le> 9999" and m: "month d \<le> 99" and dd: "day d \<le> 99"
    using days_in_month_le [of "year d" "month d"] by (auto simp add: valid_datetime_def)
  have l: "length (strftime_ymd d) = 10" "strftime_ymd d ! 4 = CHR ''-''" "strftime_ymd d ! 7 = CHR ''-''"
    by (simp_all add: strftime_ymd_def zfill4_def zfill2_def)
  have t: "take 4 (strftime_ymd d) = zfill4 (year d)"
    "take 2 (drop 5 (strftime_ymd d)) = zfill2 (month d)"
    "drop 8 (strftime_ymd d) = zfill2 (day d)"
    by (simp_all add: strftime_ymd_def zfill4_def zfill2_def)
  have s: "\<lparr>year = year d, month = month d, day = day d\<rparr> = d" by simp
  show ?thesis
    unfolding strptime_ymd_def
    using assms by (simp add: l t nat_of_digits_zfill4 [OF y] nat_of_digits_zfill2 [OF m]
        nat_of_digits_zfill2 [OF dd] Let_def s)
qed









section \<open>The first match of a list\<close>

lemma find_first:
  assumes "P t" and "\<forall>u \<in> set ys. \<not> P u"
  shows "find P (ys @ t # zs) = Some t"
  using assms by (induction ys) simp_all

lemma find_split:
  assumes "find P xs = Some t"
  shows "\<exists>ys zs. xs = ys @ t # zs \<and> P t \<and> (\<forall>u \<in> set ys. \<not> P u)"
  using assms
proof (induction xs)
  case Nil
  then show ?case by simp
next
  case (Cons x xs)
  show ?case
  proof (cases "P x")
    case True
    with Cons.prems have "x = t" by simp
    with True have "x # xs = [] @ t # xs \<and> P t \<and> (\<forall>u \<in> set []. \<not> P u)" by simp
    then show ?thesis by blast
  next
    case False
    with Cons.prems have "find P xs = Some t" by simp
    then obtain ys zs where "xs = ys @ t # zs" "P t" "\<forall>u \<in> set ys. \<not> P u"
      using Cons.IH by blast
    with False have "x # xs = (x # ys) @ t # zs \<and> P t \<and> (\<forall>u \<in> set (x # ys). \<not> P u)"
      by simp
    then show ?thesis by blast
  qed
qed

lemma find_None_set: "find P xs = None \<longleftrightarrow> (\<forall>u \<in> set xs. \<not> P u)"
  by (induction xs) simp_all

lemma remove1_first:
  assumes "P t" and "\<forall>u \<in> set ys. \<not> P u"
  shows "remove1 t (ys @ t # zs) = ys @ zs"
proof -
  from assms have "t \<notin> set ys" by blast
  then show ?thesis by (simp add: remove1_append)
qed

lemma matches_iff: "matches d s t \<longleftrightarrow> tx_date t = d \<and> tx_store t = s"
  by (cases t) (simp add: matches_def tx_date_def tx_store_def)

lemma tx_key_eq: "tx_key t = (strftime_ymd (tx_date t), tx_store t)"
  by (cases t) (simp add: tx_key_def tx_date_def tx_store_def)

section \<open>Evaluating the example states\<close>

lemmas run_defs = load_csv_def load_row_def Let_def parse_field_def add_selectedd_def
  remove_selectedd_def matches_def tx_key_def tesco_key_def jan_file_def

lemma triplet_state_eq:
  "transactions triplet_state = [tesco_tx_b, tesco_tx_c] \<and>
   ignored_transactions triplet_state = [tesco_tx] \<and>
   ignore_list triplet_state = [tesco_key]"
  by (simp add: triplet_state_def run_defs example_defs extract_store_name_Tesco date_defs)

lemma scenario_state_eq:
  "transactions scenario_state = [tesco_tx, employer_tx] \<and>
   ignored_transactions scenario_state = [] \<and>
   ignore_list scenario_state = []"
  by (simp add: scenario_state_def run_defs example_defs extract_store_name_Tesco
      extract_store_name_Employer date_defs)

lemma twin_state_eq:
  "transactions twin_state = [tesco_tx] \<and>
   ignored_transactions twin_state = [tesco_tx_b] \<and>
   ignore_list twin_state = []"
  by (simp add: twin_state_def run_defs example_defs extract_store_name_Tesco date_defs)

lemma thrice_state_eq:
  "transactions thrice_state = [tesco_tx] \<and>
   ignored_transactions thrice_state = [] \<and>
   ignore_list thrice_state = [tesco_key, tesco_key]"
  by (simp add: thrice_state_def run_defs example_defs extract_store_name_Tesco date_defs)

lemma strptime_tesco_key:
  "strptime_ymd ''2024-01-15'' = Some \<lparr>year = 2024, month = 1, day = 15\<rparr>"
  by (simp add: date_defs)

lemma tx_key_tesco: "tx_key tesco_tx = tesco_key" "tx_key tesco_tx_b = tesco_key"
  "tx_key tesco_tx_c = tesco_key"
  by (simp_all add: tx_key_def tesco_key_def example_defs date_defs)

section \<open>Moves and duplicate pairs\<close>

text \<open>
  C8, as the code has it. When the date string parses, a move to the ignored sequence
  whose pair is not yet in the ignore list takes out the first active transaction with
  that date and store, appends it to the ignored sequence and leaves every other active
  transaction, later ones with the same pair included, in place and in order; a move
  back to the active sequence does the same from the ignored sequence to the active one;
  and a move to the ignored sequence whose pair is already in the ignore list changes
  nothing.
\<close>

theorem move_takes_first_match:
  "(strptime_ymd date_str = Some date_obj \<and> (date_str, s) \<notin> set (ignore_list st) \<and>
    transactions st = before @ t # after \<and> matches date_obj s t \<and>
    (\<forall>u \<in> set before. \<not> matches date_obj s u) \<longrightarrow>
      transactions (add_selectedd (Some (date_str, s)) st) = before @ after \<and>
      ignored_transactions (add_selectedd (Some (date_str, s)) st) =
        ignored_transactions st @ [t]) \<and>
   (strptime_ymd date_str = Some date_obj \<and>
    ignored_transactions st = before @ t # after \<and> matches date_obj s t \<and>
    (\<forall>u \<in> set before. \<not> matches date_obj s u) \<longrightarrow>
      ignored_transactions (remove_selectedd (Some (date_str, s)) st) = before @ after \<and>
      transactions (remove_selectedd (Some (date_str, s)) st) = transactions st @ [t]) \<and>
   ((date_str, s) \<in> set (ignore_list st) \<longrightarrow>
      add_selectedd (Some (date_str, s)) st = st)"
proof (intro conjI impI)
  assume a: "strptime_ymd date_str = Some date_obj \<and> (date_str, s) \<notin> set (ignore_list st) \<and>
    transactions st = before @ t # after \<and> matches date_obj s t \<and>
    (\<forall>u \<in> set before. \<not> matches date_obj s u)"
  then have f: "find (matches date_obj s) (transactions st) = Some t"
    and r: "remove1 t (transactions st) = before @ after"
    by (simp_all add: find_first remove1_first)
  from a f r show "transactions (add_selectedd (Some (date_str, s)) st) = before @ after"
    by (simp add: add_selectedd_def Let_def)
  from a f r show "ignored_transactions (add_selectedd (Some (date_str, s)) st) =
      ignored_transactions st @ [t]"
    by (simp add: add_selectedd_def Let_def)
next
  assume a: "strptime_ymd date_str = Some date_obj \<and>
    ignored_transactions st = before @ t # after \<and> matches date_obj s t \<and>
    (\<forall>u \<in> set before. \<not> matches date_obj s u)"
  then have f: "find (matches date_obj s) (ignored_transactions st) = Some t"
    and r: "remove1 t (ignored_transactions st) = before @ after"
    by (simp_all add: find_first remove1_first)
  from a f r show "ignored_transactions (remove_selectedd (Some (date_str, s)) st) = before @ after"
    by (simp add: remove_selectedd_def Let_def)
  from a f r show "transactions (remove_selectedd (Some (date_str, s)) st) = transactions st @ [t]"
    by (simp add: remove_selectedd_def Let_def)
next
  assume "(date_str, s) \<in> set (ignore_list st)"
  then show "add_selectedd (Some (date_str, s)) st = st"
    by (simp add: add_selectedd_def split: option.splits)
qed

theorem move_takes_first_match_witness:
  "transactions (add_selectedd (Some tesco_key)
      ((initial_state Map.empty [])\<lparr>transactions := [employer_tx, tesco_tx, tesco_tx_b]\<rparr>)) =
     [employer_tx, tesco_tx_b] \<and>
   ignored_transactions (add_selectedd (Some tesco_key)
      ((initial_state Map.empty [])\<lparr>transactions := [employer_tx, tesco_tx, tesco_tx_b]\<rparr>)) =
     [tesco_tx] \<and>
   ignored_transactions (remove_selectedd (Some tesco_key)
      ((initial_state Map.empty [tesco_key])\<lparr>ignored_transactions := [tesco_tx, tesco_tx_b]\<rparr>)) =
     [tesco_tx_b] \<and>
   transactions (remove_selectedd (Some tesco_key)
      ((initial_state Map.empty [tesco_key])\<lparr>ignored_transactions := [tesco_tx, tesco_tx_b]\<rparr>)) =
     [tesco_tx] \<and>
   add_selectedd (Some tesco_key) triplet_state = triplet_state"
proof -
  let ?d = "\<lparr>year = 2024, month = 1, day = 15\<rparr>"
  let ?a = "((initial_state Map.empty [])\<lparr>transactions := [employer_tx, tesco_tx, tesco_tx_b]\<rparr>)
    :: real state"
  let ?b = "((initial_state Map.empty [tesco_key])\<lparr>ignored_transactions := [tesco_tx, tesco_tx_b]\<rparr>)
    :: real state"
  have a: "strptime_ymd ''2024-01-15'' = Some ?d \<and> (''2024-01-15'', ''Tesco'') \<notin> set (ignore_list ?a) \<and>
    transactions ?a = [employer_tx] @ tesco_tx # [tesco_tx_b] \<and> matches ?d ''Tesco'' tesco_tx \<and>
    (\<forall>u \<in> set [employer_tx]. \<not> matches ?d ''Tesco'' u)"
    by (simp add: strptime_tesco_key matches_def example_defs)
  have b: "strptime_ymd ''2024-01-15'' = Some ?d \<and>
    ignored_transactions ?b = [] @ tesco_tx # [tesco_tx_b] \<and> matches ?d ''Tesco'' tesco_tx \<and>
    (\<forall>u \<in> set []. \<not> matches ?d ''Tesco'' u)"
    by (simp add: strptime_tesco_key matches_def example_defs)
  have c: "(''2024-01-15'', ''Tesco'') \<in> set (ignore_list triplet_state)"
    using triplet_state_eq by (simp add: tesco_key_def)
  note t1 = move_takes_first_match [where date_str = "''2024-01-15''" and s = "''Tesco''"
      and date_obj = ?d and st = ?a and before = "[employer_tx]" and t = tesco_tx
      and after = "[tesco_tx_b]"]
  note t2 = move_takes_first_match [where date_str = "''2024-01-15''" and s = "''Tesco''"
      and date_obj = ?d and st = ?b and before = "[]" and t = tesco_tx
      and after = "[tesco_tx_b]"]
  note t3 = move_takes_first_match [where date_str = "''2024-01-15''" and s = "''Tesco''"
      and date_obj = ?d and st = triplet_state and before = "[]" and t = tesco_tx
      and after = "[]"]
  from t1 a have 1: "transactions (add_selectedd (Some tesco_key) ?a) = [employer_tx, tesco_tx_b] \<and>
      ignored_transactions (add_selectedd (Some tesco_key) ?a) = [tesco_tx]"
    unfolding tesco_key_def by (simp add: initial_state_def)
  from t2 b have 2: "ignored_transactions (remove_selectedd (Some tesco_key) ?b) = [tesco_tx_b] \<and>
      transactions (remove_selectedd (Some tesco_key) ?b) = [tesco_tx]"
    unfolding tesco_key_def by (simp add: initial_state_def)
  from t3 c have 3: "add_selectedd (Some tesco_key) triplet_state = triplet_state"
    unfolding tesco_key_def by blast
  from 1 2 3 show ?thesis by blast
qed

text \<open>
  After three Tesco rows of one day are loaded and the first is ignored, two active
  transactions share the pair; a second move to the ignored sequence with that pair
  removes neither of them.
\<close>

theorem move_takes_first_match_counterexample:
  "transactions triplet_state = [tesco_tx_b, tesco_tx_c] \<and>
   tx_key tesco_tx_b = tesco_key \<and> tx_key tesco_tx_c = tesco_key \<and>
   transactions (add_selectedd (Some tesco_key) triplet_state) = [tesco_tx_b, tesco_tx_c]"
  using triplet_state_eq
  by (simp add: tx_key_tesco add_selectedd_def tesco_key_def strptime_tesco_key)

section \<open>Ignoring and taking back\<close>

text \<open>
  C5, as the code has it. Let \<open>t\<close> be an active transaction with a calendar date, let
  no ignored transaction have the date and store of \<open>t\<close>, and let the ignore list hold
  no pair twice. Then moving the pair of \<open>t\<close> to the ignored sequence and back leaves
  \<open>t\<close> in the active sequence, which holds the same transactions as before, leaves the
  ignored sequence as it was and without \<open>t\<close>, and leaves the pair out of the ignore
  list.
\<close>

theorem ignore_then_unignore:
  assumes "t \<in> set (transactions st)"
    and "valid_datetime (tx_date t)"
    and "distinct (ignore_list st)"
    and "\<forall>u \<in> set (ignored_transactions st). \<not> matches (tx_date t) (tx_store t) u"
  shows
    "t \<in> set (transactions (remove_selectedd (Some (tx_key t))
        (add_selectedd (Some (tx_key t)) st))) \<and>
     mset (transactions (remove_selectedd (Some (tx_key t))
        (add_selectedd (Some (tx_key t)) st))) = mset (transactions st) \<and>
     ignored_transactions (remove_selectedd (Some (tx_key t))
        (add_selectedd (Some (tx_key t)) st)) = ignored_transactions st \<and>
     t \<notin> set (ignored_transactions (remove_selectedd (Some (tx_key t))
        (add_selectedd (Some (tx_key t)) st))) \<and>
     tx_key t \<notin> set (ignore_list (remove_selectedd (Some (tx_key t))
        (add_selectedd (Some (tx_key t)) st)))"
proof -
  let ?d = "tx_date t" and ?s = "tx_store t"
  let ?k = "(strftime_ymd ?d, ?s)"
  have k: "tx_key t = ?k" by (rule tx_key_eq)
  have p: "strptime_ymd (strftime_ymd ?d) = Some ?d"
    using assms(2) by (rule strptime_strftime)
  have mt: "matches ?d ?s t" by (simp add: matches_iff)
  from assms(4) have none: "find (matches ?d ?s) (ignored_transactions st) = None"
    by (simp add: find_None_set)
  from assms(4) mt have tni: "t \<notin> set (ignored_transactions st)" by blast
  show ?thesis
  proof (cases "?k \<in> set (ignore_list st)")
    case True
    then have a: "add_selectedd (Some ?k) st = st"
      by (simp add: add_selectedd_def p)
    from True assms(3) have "?k \<notin> set (remove1 ?k (ignore_list st))" by simp
    with True none assms(1) tni show ?thesis
      unfolding k a by (simp add: remove_selectedd_def p Let_def)
  next
    case False
    from assms(1) mt have "find (matches ?d ?s) (transactions st) \<noteq> None"
      by (auto simp add: find_None_set)
    then obtain u where fu: "find (matches ?d ?s) (transactions st) = Some u" by blast
    then obtain ys zs where sp: "transactions st = ys @ u # zs" and mu: "matches ?d ?s u"
      and nys: "\<forall>v \<in> set ys. \<not> matches ?d ?s v"
      using find_split [of "matches ?d ?s" "transactions st" u] by blast
    have r: "remove1 u (transactions st) = ys @ zs"
      unfolding sp using mu nys by (rule remove1_first)
    let ?st1 = "add_selectedd (Some ?k) st"
    have a1: "transactions ?st1 = ys @ zs"
      and a2: "ignored_transactions ?st1 = ignored_transactions st @ [u]"
      and a3: "ignore_list ?st1 = ignore_list st @ [?k]"
      using False fu r by (simp_all add: add_selectedd_def p Let_def)
    from assms(4) mu have "\<forall>v \<in> set (ignored_transactions st). \<not> matches ?d ?s v" by simp
    then have f2: "find (matches ?d ?s) (ignored_transactions ?st1) = Some u"
      unfolding a2 using mu by (simp add: find_first [where zs = "[]", simplified])
    from assms(4) mu have "u \<notin> set (ignored_transactions st)" by blast
    then have r2: "remove1 u (ignored_transactions ?st1) = ignored_transactions st"
      unfolding a2 by (simp add: remove1_append)
    from False have r3: "remove1 ?k (ignore_list ?st1) = ignore_list st"
      unfolding a3 by (simp add: remove1_append)
    have b1: "transactions (remove_selectedd (Some ?k) ?st1) = ys @ zs @ [u]"
      and b2: "ignored_transactions (remove_selectedd (Some ?k) ?st1) = ignored_transactions st"
      and b3: "ignore_list (remove_selectedd (Some ?k) ?st1) = ignore_list st"
      using f2 r2 r3 a1 a3 by (simp_all add: remove_selectedd_def p Let_def)
    from assms(1) have "t \<in> set (ys @ zs @ [u])" unfolding sp by auto
    with False tni show ?thesis
      unfolding k b1 b2 b3 sp by simp
  qed
qed

theorem ignore_then_unignore_witness:
  "tesco_tx \<in> set (transactions (remove_selectedd (Some tesco_key)
      (add_selectedd (Some tesco_key) scenario_state))) \<and>
   ignored_transactions (remove_selectedd (Some tesco_key)
      (add_selectedd (Some tesco_key) scenario_state)) = [] \<and>
   tesco_key \<notin> set (ignore_list (remove_selectedd (Some tesco_key)
      (add_selectedd (Some tesco_key) scenario_state)))"
proof -
  have h: "tesco_tx \<in> set (transactions scenario_state)"
    "valid_datetime (tx_date tesco_tx)"
    "distinct (ignore_list scenario_state)"
    "\<forall>u \<in> set (ignored_transactions scenario_state).
       \<not> matches (tx_date tesco_tx) (tx_store tesco_tx) u"
    using scenario_state_eq
    by (simp_all add: tx_defs example_defs date_defs)
  show ?thesis
    using ignore_then_unignore [OF h] scenario_state_eq by (simp add: tx_key_tesco)
qed

text \<open>
  With an ignored transaction of the same date and store, the round trip brings that
  one back and leaves \<open>t\<close> ignored; with the pair three times in the ignore file, the
  pair is still in the ignore list after the round trip.
\<close>

theorem ignore_then_unignore_counterexample:
  "tesco_tx \<in> set (transactions twin_state) \<and>
   tx_key tesco_tx = tesco_key \<and>
   transactions (remove_selectedd (Some tesco_key) (add_selectedd (Some tesco_key) twin_state)) =
     [tesco_tx_b] \<and>
   ignored_transactions
     (remove_selectedd (Some tesco_key) (add_selectedd (Some tesco_key) twin_state)) =
     [tesco_tx] \<and>
   tesco_tx \<in> set (transactions thrice_state) \<and>
   ignore_list (remove_selectedd (Some tesco_key) (add_selectedd (Some tesco_key) thrice_state)) =
     [tesco_key]"
  using twin_state_eq thrice_state_eq
  by (simp add: tx_key_def add_selectedd_def remove_selectedd_def Let_def matches_def
      tesco_key_def example_defs date_defs)

section \<open>The invariant of the two sequences\<close>






















section \<open>Partition exclusivity\<close>





section \<open>The scenarios of the specification\<close>

text \<open>
  After the two rows of the scenario are loaded, the spending of January 2024 is 23.50
  and its income 2000.00; after the Tesco transaction is ignored and the summary is
  computed again, the spending of January 2024 is zero.
\<close>

lemma scenario_ignored_eq:
  "transactions (add_selectedd (Some tesco_key) scenario_state) = [employer_tx] \<and>
   ignored_transactions (add_selectedd (Some tesco_key) scenario_state) = [tesco_tx] \<and>
   ignore_list (add_selectedd (Some tesco_key) scenario_state) = [tesco_key]"
  using scenario_state_eq
  by (simp add: add_selectedd_def Let_def matches_def tesco_key_def example_defs date_defs)

theorem generate_summary_sound_witness:
  "dd_get (monthly_totals_spending (generate_summary (transactions scenario_state))) ''2024-01'' =
     23.5 \<and>
   dd_get (monthly_totals_income (generate_summary (transactions scenario_state))) ''2024-01'' =
     2000 \<and>
   dd_get (monthly_totals_spending
     (generate_summary (transactions (add_selectedd (Some tesco_key) scenario_state))))
     ''2024-01'' = 0"
  using generate_summary_sound [of "transactions scenario_state" "''2024-01''" "''None''"]
    generate_summary_sound [of "transactions (add_selectedd (Some tesco_key) scenario_state)"
      "''2024-01''" "''None''"]
    scenario_state_eq scenario_ignored_eq
  by (simp add: spec_income_def spec_spending_def py_sum_def example_defs date_defs)

end
